theory Spec2Isabelle
  imports Complex_Main "HOL-Library.Multiset"
begin

section \<open>Python values shared by both files\<close>

datatype py_exc = ImportError | IndexError | OtherError string

definition getitem :: "'a list \<Rightarrow> int \<Rightarrow> py_exc + 'a" where
  \<comment> \<open>\<^verbatim>\<open>a[i]\<close>: a negative index counts from the end, an index out of range raises\<close>
  "getitem a i =
     (let n = int (length a); j = (if i < 0 then n + i else i)
      in if 0 \<le> j \<and> j < n then Inr (a ! nat j) else Inl IndexError)"

section \<open>The example script: a spinful fermion model on a 4 x 4 lattice\<close>

text \<open>
  The script \<^verbatim>\<open>spinful_fermion_basis_general-adv-example.py\<close> is straight-line code over
  integer arrays. Arrays are \<open>int list\<close>s (the entries stay far below the 64-bit range),
  Python's \<^verbatim>\<open>%\<close> and \<^verbatim>\<open>//\<close> on integers floor, as \<open>mod\<close> and \<open>div\<close> on \<open>int\<close> do, and
  the coefficients \<^verbatim>\<open>J = 1.0\<close>, \<^verbatim>\<open>U = 2.0\<close>, \<^verbatim>\<open>mu = 0.5\<close> are only ever negated, which is
  exact, so they are modelled as reals.
\<close>

subsection \<open>The numpy operations the script calls\<close>

definition arange :: "int \<Rightarrow> int list" where
  \<comment> \<open>\<^verbatim>\<open>np.arange(n)\<close> and \<^verbatim>\<open>range(n)\<close>: the integers \<open>0, ..., n - 1\<close>\<close>
  "arange n = [0..n - 1]"

definition hstack :: "int list \<Rightarrow> int list \<Rightarrow> int list" where
  \<comment> \<open>\<^verbatim>\<open>np.hstack((a, b))\<close> on one-dimensional arrays\<close>
  "hstack a b = a @ b"

definition roll :: "int list \<Rightarrow> int \<Rightarrow> int list" where
  \<comment> \<open>\<^verbatim>\<open>np.roll(a, shift)\<close> on a one-dimensional array: the entry at \<open>i\<close> moves to
      \<open>(i + shift) mod n\<close>\<close>
  "roll a shift =
     (let n = length a in
      if n = 0 then a
      else let k = nat (shift mod int n) in drop (n - k) a @ take (n - k) a)"

subsection \<open>Model parameters and symmetry transformations\<close>

definition Lx :: int where "Lx = 4"
definition Ly :: int where "Ly = 4"
definition N_2d :: int where "N_2d = Lx * Ly"

definition J :: real where "J = 1"
definition U :: real where "U = 2"
definition mu :: real where "mu = 1 / 2"

definition x :: "int list" where
  "x = map (\<lambda>i. i mod Lx) (arange N_2d)"

definition y :: "int list" where
  "y = map (\<lambda>i. i div Lx) (arange N_2d)"

definition t_x :: "int list" where
  "t_x = map2 (\<lambda>a b. (a + 1) mod Lx + Lx * b) x y"

definition t_y :: "int list" where
  "t_y = map2 (\<lambda>a b. a + Lx * ((b + 1) mod Ly)) x y"

definition s :: "int list" where
  "s = arange (2 * N_2d)"

definition T_x :: "int list" where
  "T_x = hstack t_x (map (\<lambda>v. v + N_2d) t_x)"

definition T_y :: "int list" where
  "T_y = hstack t_y (map (\<lambda>v. v + N_2d) t_y)"

definition S :: "int list" where
  "S = roll s N_2d"

subsection \<open>Site-coupling lists\<close>

text \<open>
  A list comprehension \<^verbatim>\<open>[[c, i, T[i]] for i in range(n)]\<close> reads \<^verbatim>\<open>T[i]\<close> for each index in
  turn; the first read out of range raises and no list is built.
\<close>

fun coupling :: "real \<Rightarrow> int list \<Rightarrow> int list \<Rightarrow> py_exc + (real \<times> int \<times> int) list" where
  "coupling c T [] = Inr []"
| "coupling c T (i # is) =
     (case getitem T i of
        Inl e \<Rightarrow> Inl e
      | Inr t \<Rightarrow> (case coupling c T is of
                    Inl e \<Rightarrow> Inl e
                  | Inr r \<Rightarrow> Inr ((c, i, t) # r)))"

definition hopping :: "real \<Rightarrow> py_exc + (real \<times> int \<times> int) list" where
  \<comment> \<open>the shape shared by \<^verbatim>\<open>hopping_left\<close> and \<^verbatim>\<open>hopping_right\<close>\<close>
  "hopping c =
     (case coupling c T_x (arange (2 * N_2d)) of
        Inl e \<Rightarrow> Inl e
      | Inr a \<Rightarrow> (case coupling c T_y (arange (2 * N_2d)) of
                    Inl e \<Rightarrow> Inl e
                  | Inr b \<Rightarrow> Inr (a @ b)))"

definition hopping_left :: "py_exc + (real \<times> int \<times> int) list" where
  "hopping_left = hopping (- J)"

definition hopping_right :: "py_exc + (real \<times> int \<times> int) list" where
  "hopping_right = hopping J"

definition potential :: "(real \<times> int) list" where
  "potential = map (\<lambda>i. (- mu, i)) (arange (2 * N_2d))"

definition interaction :: "(real \<times> int \<times> int) list" where
  "interaction = map (\<lambda>i. (U, i, i + N_2d)) (arange N_2d)"

subsection \<open>Applying a permutation array repeatedly\<close>

text \<open>
  The script hands \<^verbatim>\<open>T_x\<close>, \<^verbatim>\<open>T_y\<close> and \<^verbatim>\<open>S\<close> to the basis constructor as maps on site
  indices, \<open>i\<close> going to \<^verbatim>\<open>T[i]\<close>. \<open>iterate_perm n T i\<close> follows such a map \<open>n\<close> times
  from \<open>i\<close>, reading the array as the script reads it.
\<close>

fun iterate_perm :: "nat \<Rightarrow> int list \<Rightarrow> int \<Rightarrow> py_exc + int" where
  "iterate_perm 0 T i = Inr i"
| "iterate_perm (Suc n) T i =
     (case getitem T i of Inl e \<Rightarrow> Inl e | Inr v \<Rightarrow> iterate_perm n T v)"

section \<open>The build helper \<^verbatim>\<open>setup.py\<close>\<close>

text \<open>
  The helper talks to its surroundings only: the command line, the file system, Cython and
  numpy.distutils. The surroundings are a record \<open>world\<close>, and every call that leaves the
  script is an \<open>event\<close> of the trace a function returns next to its result. A result is
  \<open>Inr ()\<close> for a normal return (neither function returns a value) and \<open>Inl e\<close> for an
  exception that leaves the function.

  Two imports can fail or be heard. The Cython import inside \<^verbatim>\<open>cython_files\<close> is guarded by
  the source and may fail. The import of \<^verbatim>\<open>numpy.distutils.core\<close> that opens the main block
  stands before the \<^verbatim>\<open>try\<close>: when it fails, its \<^verbatim>\<open>ImportError\<close> leaves the program, and
  when it succeeds it may print warnings on the error stream first. The standard library
  imports (os, glob, sys) succeed, and so do the numpy imports inside \<^verbatim>\<open>configuration\<close>,
  which runs under numpy.distutils or after the main block has loaded it.
\<close>

datatype import_outcome = Imported "string list" | NotImportable

datatype path_arg = OnePath string | PathList "string list"

fun source_files :: "path_arg \<Rightarrow> string list" where
  \<comment> \<open>the files a \<^verbatim>\<open>sources\<close> argument names: a lone string is one file\<close>
  "source_files (OnePath p) = [p]"
| "source_files (PathList ps) = ps"

record extension =
  ext_name :: string
  sources :: path_arg
  include_dirs :: "string list"
  extra_compile_args :: "string list"
  language :: string

record config =
  package_name :: string
  parent_package :: string
  top_path :: "string option"
  ext_modules :: "extension list"

datatype event =
    Stderr string
  | Glob string
  | Cythonize "string list" string
  | NewConfiguration string string "string option"
  | AddExtension extension
  | Setup config

record world =
  argv :: "string list"
  package_dir :: string
  cython_importable :: bool
  glob_files :: "string \<Rightarrow> string list"
  numpy_include :: string
  cythonize_exc :: "py_exc option"
  setup_exc :: "py_exc option"
  numpy_distutils :: import_outcome

text \<open>
  \<open>numpy_distutils\<close> is what \<^verbatim>\<open>from numpy.distutils.core import setup\<close> does: \<open>Imported ws\<close>
  when the module loads after printing the warnings \<open>ws\<close> (none when it loads quietly),
  \<open>NotImportable\<close> when it raises \<^verbatim>\<open>ImportError\<close>.
  \<open>package_dir\<close> is \<^verbatim>\<open>os.path.dirname(os.path.realpath(__file__))\<close>, \<open>glob_files\<close> what
  \<^verbatim>\<open>glob.glob\<close> answers for a pattern, \<open>numpy_include\<close> what \<^verbatim>\<open>numpy.get_include()\<close> returns,
  and \<open>cythonize_exc\<close>, \<open>setup_exc\<close> the exception the call to \<^verbatim>\<open>cythonize\<close> or \<^verbatim>\<open>setup\<close>
  ends with, if any.
\<close>

definition path_join :: "string \<Rightarrow> string \<Rightarrow> string" where
  \<comment> \<open>\<^verbatim>\<open>os.path.join(a, b)\<close> on a POSIX system\<close>
  "path_join a b =
     (if b \<noteq> [] \<and> hd b = CHR ''/'' then b
      else if a = [] \<or> last a = CHR ''/'' then a @ b
      else a @ ''/'' @ b)"

fun raised :: "py_exc option \<Rightarrow> py_exc + unit" where
  "raised None = Inr ()"
| "raised (Some e) = Inl e"

definition cython_files :: "world \<Rightarrow> event list \<times> (py_exc + unit)" where
  "cython_files w =
     (let USE_CYTHON = cython_importable w;
          pattern = path_join (package_dir w) ''*.pyx'';
          cython_src = glob_files w pattern
      in if USE_CYTHON
         then ([Glob pattern, Cythonize cython_src ''c++''], raised (cythonize_exc w))
         else ([Glob pattern], Inr ()))"

definition Configuration :: "string \<Rightarrow> string \<Rightarrow> string option \<Rightarrow> config" where
  "Configuration name parent tpath =
     \<lparr>package_name = name, parent_package = parent, top_path = tpath, ext_modules = []\<rparr>"

definition add_extension :: "config \<Rightarrow> extension \<Rightarrow> config" where
  "add_extension c e = c\<lparr>ext_modules := ext_modules c @ [e]\<rparr>"

definition configuration :: "world \<Rightarrow> string \<Rightarrow> string option \<Rightarrow> event list \<times> config" where
  "configuration w parent tpath =
     (let config0 = Configuration ''_constructors'' parent tpath;
          hcp_src = path_join (package_dir w) ''hcp_basis_ops.cpp'';
          hcp = \<lparr>ext_name = ''hcp_basis_ops'', sources = OnePath hcp_src,
                 include_dirs = [numpy_include w],
                 extra_compile_args = [''-fno-strict-aliasing''], language = ''c++''\<rparr>;
          config1 = add_extension config0 hcp;
          boson_src = path_join (package_dir w) ''boson_basis_ops.cpp'';
          boson = \<lparr>ext_name = ''boson_basis_ops'', sources = OnePath boson_src,
                   include_dirs = [numpy_include w],
                   extra_compile_args = [''-fno-strict-aliasing''], language = ''c++''\<rparr>;
          config2 = add_extension config1 boson
      in ([NewConfiguration ''_constructors'' parent tpath, AddExtension hcp, AddExtension boson],
          config2))"

fun except_IndexError :: "py_exc + unit \<Rightarrow> py_exc + unit" where
  \<comment> \<open>\<^verbatim>\<open>except IndexError: pass\<close>\<close>
  "except_IndexError (Inl IndexError) = Inr ()"
| "except_IndexError r = r"

definition main :: "world \<Rightarrow> event list \<times> (py_exc + unit)" where
  "main w =
     (case numpy_distutils w of
        NotImportable \<Rightarrow> ([], Inl ImportError)
      | Imported ws \<Rightarrow>
          (case getitem (argv w) 1 of
             Inl e \<Rightarrow> (map Stderr ws, except_IndexError (Inl e))
           | Inr instr \<Rightarrow>
               if instr = ''build_templates''
               then (let (tr, r) = cython_files w
                     in (map Stderr ws @ tr, except_IndexError r))
               else (let (tr, c) = configuration w [] (Some [])
                     in (map Stderr ws @ tr @ [Setup c],
                         except_IndexError (raised (setup_exc w))))))"

text \<open>The names the source registers only inside its commented-out block.\<close>

definition commented_out_targets :: "string list" where
  "commented_out_targets =
     [''inplace_ops'', ''spin_basis_ops'', ''hcb_basis_ops'', ''fermion_basis_ops'']"

text \<open>Which events write to the file system, and which belong to a build configuration.\<close>

fun writes :: "event \<Rightarrow> bool" where
  "writes (Stderr _) = False"
| "writes (Glob _) = False"
| "writes (Cythonize _ _) = True"
| "writes (NewConfiguration _ _ _) = False"
| "writes (AddExtension _) = False"
| "writes (Setup _) = True"

fun is_cythonize :: "event \<Rightarrow> bool" where
  "is_cythonize (Cythonize _ _) = True"
| "is_cythonize _ = False"


text \<open>Sample surroundings on which the theorems about the build helper are exercised.\<close>

definition bare_world :: world where
  "bare_world =
     \<lparr>argv = [''setup.py''], package_dir = ''/pkg'', cython_importable = False,
      glob_files = (\<lambda>p. [''/pkg/a.pyx'', ''/pkg/b.pyx'']), numpy_include = ''/np/include'',
      cythonize_exc = None, setup_exc = None, numpy_distutils = Imported []\<rparr>"

definition templates_world :: world where
  "templates_world =
     bare_world\<lparr>argv := [''setup.py'', ''build_templates''], cython_importable := True\<rparr>"


definition no_numpy_world :: world where
  "no_numpy_world = bare_world\<lparr>numpy_distutils := NotImportable\<rparr>"

definition warning_world :: world where
  "warning_world = bare_world\<lparr>numpy_distutils := Imported [''DeprecationWarning'']\<rparr>"

section \<open>Properties of the example script\<close>

lemma upto_0_15: "[0..15::int] = [0, 1, 2, 3, 4, 5, 6, 7, 8, 9, 10, 11, 12, 13, 14, 15]"
  by code_simp

lemma upto_0_31:
  "[0..31::int] =
     [0, 1, 2, 3, 4, 5, 6, 7, 8, 9, 10, 11, 12, 13, 14, 15,
      16, 17, 18, 19, 20, 21, 22, 23, 24, 25, 26, 27, 28, 29, 30, 31]"
  by code_simp

lemma N_2d_value: "N_2d = 16"
  by (simp add: N_2d_def Lx_def Ly_def)

lemma T_x_entries:
  "T_x = [1, 2, 3, 0, 5, 6, 7, 4, 9, 10, 11, 8, 13, 14, 15, 12,
          17, 18, 19, 16, 21, 22, 23, 20, 25, 26, 27, 24, 29, 30, 31, 28]"
  by (simp add: T_x_def t_x_def hstack_def x_def y_def arange_def N_2d_value Lx_def upto_0_15)

lemma T_y_entries:
  "T_y = [4, 5, 6, 7, 8, 9, 10, 11, 12, 13, 14, 15, 0, 1, 2, 3,
          20, 21, 22, 23, 24, 25, 26, 27, 28, 29, 30, 31, 16, 17, 18, 19]"
  by (simp add: T_y_def t_y_def hstack_def x_def y_def arange_def N_2d_value Lx_def Ly_def
      upto_0_15)

lemma S_entries:
  "S = [16, 17, 18, 19, 20, 21, 22, 23, 24, 25, 26, 27, 28, 29, 30, 31,
        0, 1, 2, 3, 4, 5, 6, 7, 8, 9, 10, 11, 12, 13, 14, 15]"
  by (simp add: S_def roll_def s_def arange_def N_2d_value upto_0_31)

lemma site_range: "0 \<le> i \<and> i < 32 \<longleftrightarrow> i \<in> set [0..31::int]"
  by auto

lemma arange_nth: "0 \<le> i \<Longrightarrow> i < n \<Longrightarrow> arange n ! nat i = i"
  by (simp add: arange_def nth_upto)

lemma arange_length: "length (arange n) = nat n"
  by (simp add: arange_def)

lemma coupling_in_range:
  "\<forall>i\<in>set js. 0 \<le> i \<and> i < int (length T) \<Longrightarrow>
     coupling c T js = Inr (map (\<lambda>i. (c, i, T ! nat i)) js)"
  by (induction js) (simp_all add: getitem_def)

lemma hopping_value:
  "hopping c = Inr (map (\<lambda>i. (c, i, T_x ! nat i)) (arange 32) @
                    map (\<lambda>i. (c, i, T_y ! nat i)) (arange 32))"
proof -
  have lx: "length T_x = 32" and ly: "length T_y = 32"
    by (simp_all add: T_x_entries T_y_entries)
  have rng: "\<forall>i\<in>set (arange 32). 0 \<le> i \<and> i < 32"
    by (simp add: arange_def)
  have "coupling c T_x (arange 32) = Inr (map (\<lambda>i. (c, i, T_x ! nat i)) (arange 32))"
    by (rule coupling_in_range) (use rng lx in simp)
  moreover
  have "coupling c T_y (arange 32) = Inr (map (\<lambda>i. (c, i, T_y ! nat i)) (arange 32))"
    by (rule coupling_in_range) (use rng ly in simp)
  ultimately show ?thesis
    by (simp add: hopping_def N_2d_value)
qed

text \<open>
  C5. With \<open>Lx = Ly = 4\<close> the script has \<open>N_2d = 16\<close> and \<open>2 * N_2d = 32\<close>, and the arrays
  \<open>T_x\<close> and \<open>T_y\<close> are permutations of the index set \<open>0, ..., 31\<close>: each has 32 entries,
  no entry twice, and its entries are exactly the integers from 0 to 31, so every index
  below 32 is an entry exactly once. As multisets both equal the 32 indices the script
  enumerates.
\<close>

theorem translations_are_permutations:
  "Lx = 4 \<and> Ly = 4 \<and> N_2d = 16 \<and> 2 * N_2d = 32 \<and> distinct (arange 32) \<and>
   mset T_x = mset (arange (2 * N_2d)) \<and> mset T_y = mset (arange (2 * N_2d)) \<and>
   length T_x = 32 \<and> distinct T_x \<and> set T_x = {0..31} \<and>
   length T_y = 32 \<and> distinct T_y \<and> set T_y = {0..31} \<and>
   mset T_x = mset [0, 1, 2, 3, 4, 5, 6, 7, 8, 9, 10, 11, 12, 13, 14, 15, 16, 17, 18, 19, 20,
                    21, 22, 23, 24, 25, 26, 27, 28, 29, 30, 31] \<and>
   mset T_y = mset [0, 1, 2, 3, 4, 5, 6, 7, 8, 9, 10, 11, 12, 13, 14, 15, 16, 17, 18, 19, 20,
                    21, 22, 23, 24, 25, 26, 27, 28, 29, 30, 31]"
proof -
  have vals: "Lx = 4 \<and> Ly = 4 \<and> N_2d = 16 \<and> 2 * N_2d = 32 \<and> distinct (arange 32)"
    by (simp add: N_2d_value Lx_def Ly_def arange_def)
  have ms: "mset T_x = mset (arange (2 * N_2d)) \<and> mset T_y = mset (arange (2 * N_2d))"
    by (simp add: N_2d_value T_x_entries T_y_entries arange_def upto_0_31)
  have idx: "{0..31::int} = set [0..31]"
    by (simp only: set_upto)
  have px: "length T_x = 32 \<and> distinct T_x \<and> set T_x = {0..31}"
    unfolding idx upto_0_31 T_x_entries by auto
  have py: "length T_y = 32 \<and> distinct T_y \<and> set T_y = {0..31}"
    unfolding idx upto_0_31 T_y_entries by auto
  have lit: "arange (2 * N_2d) =
               [0, 1, 2, 3, 4, 5, 6, 7, 8, 9, 10, 11, 12, 13, 14, 15, 16, 17, 18, 19, 20,
                21, 22, 23, 24, 25, 26, 27, 28, 29, 30, 31]"
    by (simp add: N_2d_value arange_def upto_0_31)
  from vals ms px py show ?thesis
    unfolding lit [symmetric] by blast
qed

text \<open>
  C6. With \<open>N_2d = 16\<close> the interaction list has exactly 16 entries, and its entry at each
  \<open>i\<close> from 0 to 15 is the triple \<open>(U, i, i + 16)\<close>, which pairs the spin-up site \<open>i\<close> with
  its spin-down partner.
\<close>

theorem interaction_entries:
  "N_2d = 16 \<and> length interaction = 16 \<and>
   (\<forall>i. 0 \<le> i \<and> i < 16 \<longrightarrow> interaction ! nat i = (U, i, i + 16))"
proof -
  have len: "length interaction = 16"
    by (simp add: interaction_def N_2d_value arange_length)
  have "interaction ! nat i = (U, i, i + 16)" if "0 \<le> i" "i < 16" for i
  proof -
    from that have "nat i < length (arange 16)"
      by (simp add: arange_length)
    then have "interaction ! nat i = (U, arange 16 ! nat i, arange 16 ! nat i + 16)"
      by (simp add: interaction_def N_2d_value)
    with that show ?thesis
      by (simp add: arange_nth)
  qed
  with N_2d_value len show ?thesis
    by blast
qed

theorem interaction_entries_witness:
  "(0::int) \<le> 5 \<and> (5::int) < 16 \<and> interaction ! nat 5 = (U, 5, 21)"
proof -
  from interaction_entries
  have "(0::int) \<le> 5 \<and> (5::int) < 16 \<longrightarrow> interaction ! nat 5 = (U, 5, 5 + 16)"
    by blast
  then show ?thesis by simp
qed

text \<open>
  C8. The spin inversion \<open>S\<close> sends every index \<open>i\<close> from 0 to 31 to \<open>(i + 16) mod 32\<close>, and
  reading \<open>S\<close> again at that entry gives \<open>i\<close> back: \<open>S\<close> is an involution.
\<close>

theorem spin_inversion_involution:
  "\<forall>i. 0 \<le> i \<and> i < 32 \<longrightarrow>
     getitem S i = Inr ((i + 16) mod 32) \<and> getitem S ((i + 16) mod 32) = Inr i \<and>
     iterate_perm 2 S i = Inr i"
  unfolding site_range upto_0_31 S_entries
  by (simp add: getitem_def numeral_2_eq_2)

theorem spin_inversion_involution_witness:
  "(0::int) \<le> 20 \<and> (20::int) < 32 \<and> getitem S 20 = Inr 4 \<and> getitem S 4 = Inr 20"
proof -
  from spin_inversion_involution
  have "(0::int) \<le> 20 \<and> (20::int) < 32 \<longrightarrow>
          getitem S 20 = Inr ((20 + 16) mod 32) \<and> getitem S ((20 + 16) mod 32) = Inr 20 \<and>
          iterate_perm 2 S 20 = Inr 20"
    by blast
  then show ?thesis by simp
qed

text \<open>
  C9. Following \<open>T_x\<close> four times (\<open>Lx = 4\<close>) from any index from 0 to 31 comes back to that
  index, and so does following \<open>T_y\<close> four times (\<open>Ly = 4\<close>). Fewer steps do not: from index 0,
  one, two and three steps of either array end elsewhere, so both have order exactly 4.
\<close>

theorem translations_have_order_four:
  "nat Lx = 4 \<and> nat Ly = 4 \<and>
   (\<forall>i. 0 \<le> i \<and> i < 32 \<longrightarrow>
      iterate_perm (nat Lx) T_x i = Inr i \<and> iterate_perm (nat Ly) T_y i = Inr i) \<and>
   map (\<lambda>k. iterate_perm k T_x 0) [1, 2, 3] = [Inr 1, Inr 2, Inr 3] \<and>
   map (\<lambda>k. iterate_perm k T_y 0) [1, 2, 3] = [Inr 4, Inr 8, Inr 12]"
  unfolding site_range upto_0_31 T_x_entries T_y_entries
  by (simp add: Lx_def Ly_def getitem_def eval_nat_numeral)

theorem translations_have_order_four_witness:
  "(0::int) \<le> 7 \<and> (7::int) < 32 \<and>
   iterate_perm 4 T_x 7 = Inr 7 \<and> iterate_perm 4 T_y 7 = Inr 7"
proof -
  from translations_have_order_four
  have "nat Lx = 4" "nat Ly = 4"
    and "(0::int) \<le> 7 \<and> (7::int) < 32 \<longrightarrow>
          iterate_perm (nat Lx) T_x 7 = Inr 7 \<and> iterate_perm (nat Ly) T_y 7 = Inr 7"
    by blast+
  then show ?thesis by simp
qed

text \<open>
  C10. Both hopping lists are built without an exception and have exactly 64 entries: 32
  for \<open>T_x\<close> followed by 32 for \<open>T_y\<close>. At every position the entry of \<open>hopping_left\<close> has
  coefficient \<open>- J\<close>, and the entry of \<open>hopping_right\<close> has coefficient \<open>J\<close> and the same two
  site indices.
\<close>

theorem hopping_lists_mirror:
  "\<exists>hl hr. hopping_left = Inr hl \<and> hopping_right = Inr hr \<and>
     length hl = 64 \<and> length hr = 64 \<and>
     take 32 hl = map (\<lambda>i. (- J, i, T_x ! nat i)) (arange (2 * N_2d)) \<and>
     drop 32 hl = map (\<lambda>i. (- J, i, T_y ! nat i)) (arange (2 * N_2d)) \<and>
     hr = map (\<lambda>(c, i, j). (- c, i, j)) hl \<and>
     (\<forall>k<64. fst (hl ! k) = - J \<and> hr ! k = (J, snd (hl ! k)))"
proof -
  let ?hl = "map (\<lambda>i. (- J, i, T_x ! nat i)) (arange 32) @
             map (\<lambda>i. (- J, i, T_y ! nat i)) (arange 32)"
  let ?hr = "map (\<lambda>i. (J, i, T_x ! nat i)) (arange 32) @
             map (\<lambda>i. (J, i, T_y ! nat i)) (arange 32)"
  have l: "hopping_left = Inr ?hl" and r: "hopping_right = Inr ?hr"
    by (simp_all add: hopping_left_def hopping_right_def hopping_value)
  have len: "length ?hl = 64" "length ?hr = 64"
    by (simp_all add: arange_length)
  have tk: "take 32 ?hl = map (\<lambda>i. (- J, i, T_x ! nat i)) (arange (2 * N_2d))"
    and dr: "drop 32 ?hl = map (\<lambda>i. (- J, i, T_y ! nat i)) (arange (2 * N_2d))"
    by (simp_all add: arange_length N_2d_value)
  have neg: "?hr = map (\<lambda>(c, i, j). (- c, i, j)) ?hl"
    by (simp add: comp_def)
  have pos: "\<forall>k<64. fst (?hl ! k) = - J \<and> ?hr ! k = (J, snd (?hl ! k))"
  proof (intro allI impI)
    fix k :: nat
    assume k: "k < 64"
    show "fst (?hl ! k) = - J \<and> ?hr ! k = (J, snd (?hl ! k))"
    proof (cases "k < 32")
      case True
      then show ?thesis by (simp add: nth_append arange_length)
    next
      case False
      with k have "k - 32 < 32" by simp
      with False show ?thesis by (simp add: nth_append arange_length)
    qed
  qed
  from l r len tk dr neg pos show ?thesis by blast
qed

theorem hopping_lists_mirror_witness:
  "\<exists>hl hr. hopping_left = Inr hl \<and> hopping_right = Inr hr \<and> (40::nat) < 64 \<and>
     fst (hl ! 40) = - J \<and> hr ! 40 = (J, snd (hl ! 40))"
proof -
  from hopping_lists_mirror obtain hl hr
    where lr: "hopping_left = Inr hl" "hopping_right = Inr hr"
      and all: "\<forall>k<64. fst (hl ! k) = - J \<and> hr ! k = (J, snd (hl ! k))"
    by blast
  from all have "(40::nat) < 64 \<and> fst (hl ! 40) = - J \<and> hr ! 40 = (J, snd (hl ! 40))"
    by simp
  with lr show ?thesis by blast
qed

section \<open>Properties of the build helper\<close>

lemma configuration_value:
  "configuration w parent tpath =
     ([NewConfiguration ''_constructors'' parent tpath,
       AddExtension \<lparr>ext_name = ''hcp_basis_ops'',
         sources = OnePath (path_join (package_dir w) ''hcp_basis_ops.cpp''),
         include_dirs = [numpy_include w],
         extra_compile_args = [''-fno-strict-aliasing''], language = ''c++''\<rparr>,
       AddExtension \<lparr>ext_name = ''boson_basis_ops'',
         sources = OnePath (path_join (package_dir w) ''boson_basis_ops.cpp''),
         include_dirs = [numpy_include w],
         extra_compile_args = [''-fno-strict-aliasing''], language = ''c++''\<rparr>],
      \<lparr>package_name = ''_constructors'', parent_package = parent, top_path = tpath,
       ext_modules =
         [\<lparr>ext_name = ''hcp_basis_ops'',
           sources = OnePath (path_join (package_dir w) ''hcp_basis_ops.cpp''),
           include_dirs = [numpy_include w],
           extra_compile_args = [''-fno-strict-aliasing''], language = ''c++''\<rparr>,
          \<lparr>ext_name = ''boson_basis_ops'',
           sources = OnePath (path_join (package_dir w) ''boson_basis_ops.cpp''),
           include_dirs = [numpy_include w],
           extra_compile_args = [''-fno-strict-aliasing''], language = ''c++''\<rparr>]\<rparr>)"
  by (simp add: configuration_def Configuration_def add_extension_def Let_def)

lemma cython_files_trace:
  "fst (cython_files w) =
     (if cython_importable w
      then [Glob (path_join (package_dir w) ''*.pyx''),
            Cythonize (glob_files w (path_join (package_dir w) ''*.pyx'')) ''c++'']
      else [Glob (path_join (package_dir w) ''*.pyx'')])"
  by (simp add: cython_files_def Let_def)

text \<open>
  C1. The configuration function registers exactly two extension targets, named
  \<open>hcp_basis_ops\<close> and \<open>boson_basis_ops\<close> in this order. Each comes with exactly one source
  file, the \<^verbatim>\<open>.cpp\<close> file of its name in the package directory, with the numpy include
  directory as its only include directory and with \<^verbatim>\<open>-fno-strict-aliasing\<close> as its only
  extra compiler flag. The calls it makes are the construction of the configuration and
  one registration per target, and none of the four names of the commented-out block is
  registered.
\<close>

theorem configuration_registers_two_targets:
  "map ext_name (ext_modules (snd (configuration w parent tpath))) =
     [''hcp_basis_ops'', ''boson_basis_ops''] \<and>
   map (\<lambda>e. source_files (sources e)) (ext_modules (snd (configuration w parent tpath))) =
     [[path_join (package_dir w) ''hcp_basis_ops.cpp''],
      [path_join (package_dir w) ''boson_basis_ops.cpp'']] \<and>
   map include_dirs (ext_modules (snd (configuration w parent tpath))) =
     [[numpy_include w], [numpy_include w]] \<and>
   map extra_compile_args (ext_modules (snd (configuration w parent tpath))) =
     [[''-fno-strict-aliasing''], [''-fno-strict-aliasing'']] \<and>
   fst (configuration w parent tpath) =
     NewConfiguration ''_constructors'' parent tpath #
     map AddExtension (ext_modules (snd (configuration w parent tpath))) \<and>
   filter (\<lambda>n. n \<in> set commented_out_targets)
     (map ext_name (ext_modules (snd (configuration w parent tpath)))) = []"
  by (simp add: configuration_value commented_out_targets_def)

text \<open>
  C2, as stated: started with nothing on the command line but the program name,
  the main block always ends without raising and without any diagnostic output. The main
  block opens with an import that the handler does not cover, so this fails in two ways:
  where numpy.distutils cannot be imported the run ends in \<^verbatim>\<open>ImportError\<close>, and where the
  import prints a warning that warning is output of the run.
\<close>

theorem main_without_argument_counterexample:
  "argv no_numpy_world = [''setup.py''] \<and>
   main no_numpy_world = ([], Inl ImportError) \<and>
   argv warning_world = [''setup.py''] \<and>
   main warning_world = ([Stderr ''DeprecationWarning''], Inr ())"
  by (simp add: no_numpy_world_def warning_world_def bare_world_def main_def getitem_def)

text \<open>
  C2, amended. Started with nothing on the command line but the program name, and provided
  the import of \<^verbatim>\<open>numpy.distutils.core\<close> succeeds, reading \<^verbatim>\<open>sys.argv[1]\<close> raises
  \<^verbatim>\<open>IndexError\<close>, the handler catches it and the program ends normally; it has made no
  call by then, and the only output of the run is what that import printed, so a quiet
  import gives a silent run. Where the import fails, its \<^verbatim>\<open>ImportError\<close> leaves the
  program before the argument is read.
\<close>

theorem main_without_argument:
  "argv w = [prog] \<Longrightarrow>
     getitem (argv w) 1 = Inl IndexError \<and>
     (\<forall>ws. numpy_distutils w = Imported ws \<longrightarrow> main w = (map Stderr ws, Inr ())) \<and>
     (numpy_distutils w = Imported [] \<longrightarrow> main w = ([], Inr ())) \<and>
     (numpy_distutils w = NotImportable \<longrightarrow> main w = ([], Inl ImportError))"
  by (simp add: main_def getitem_def)

theorem main_without_argument_witness:
  "argv bare_world = [''setup.py''] \<and> numpy_distutils bare_world = Imported [] \<and>
   getitem (argv bare_world) 1 = Inl IndexError \<and> main bare_world = ([], Inr ()) \<and>
   argv warning_world = [''setup.py''] \<and>
   numpy_distutils warning_world = Imported [''DeprecationWarning''] \<and>
   main warning_world = (map Stderr [''DeprecationWarning''], Inr ()) \<and>
   argv no_numpy_world = [''setup.py''] \<and> numpy_distutils no_numpy_world = NotImportable \<and>
   main no_numpy_world = ([], Inl ImportError)"
proof -
  have a: "argv bare_world = [''setup.py'']"
    and b: "argv warning_world = [''setup.py'']"
    and c: "argv no_numpy_world = [''setup.py'']"
    by (simp_all add: bare_world_def warning_world_def no_numpy_world_def)
  have ia: "numpy_distutils bare_world = Imported []"
    and ib: "numpy_distutils warning_world = Imported [''DeprecationWarning'']"
    and ic: "numpy_distutils no_numpy_world = NotImportable"
    by (simp_all add: bare_world_def warning_world_def no_numpy_world_def)
  from main_without_argument [OF a] main_without_argument [OF b] main_without_argument [OF c]
    a b c ia ib ic
  show ?thesis by blast
qed

text \<open>
  C3. When Cython cannot be imported, \<open>cython_files\<close> returns normally, and all it does
  outside the script is one glob of \<^verbatim>\<open>*.pyx\<close> in the package directory, which only reads:
  its trace has no event that writes.
\<close>

theorem cython_files_without_cython:
  "\<not> cython_importable w \<Longrightarrow>
     snd (cython_files w) = Inr () \<and>
     fst (cython_files w) = [Glob (path_join (package_dir w) ''*.pyx'')] \<and>
     filter writes (fst (cython_files w)) = []"
  by (simp add: cython_files_def Let_def)

theorem cython_files_without_cython_witness:
  "\<not> cython_importable bare_world \<and>
   cython_files bare_world = ([Glob ''/pkg/*.pyx''], Inr ()) \<and>
   filter writes (fst (cython_files bare_world)) = []"
proof -
  have a: "\<not> cython_importable bare_world"
    by (simp add: bare_world_def)
  have p: "path_join (package_dir bare_world) ''*.pyx'' = ''/pkg/*.pyx''"
    by (simp add: bare_world_def path_join_def)
  from cython_files_without_cython [OF a] p
  have "snd (cython_files bare_world) = Inr ()"
    and "fst (cython_files bare_world) = [Glob ''/pkg/*.pyx'']"
    and "filter writes (fst (cython_files bare_world)) = []"
    by simp_all
  with a show ?thesis
    by (simp add: prod_eq_iff)
qed



text \<open>
  C7. When Cython can be imported, \<open>cython_files\<close> calls the transpiler exactly once, on
  the list of files that the glob of \<^verbatim>\<open>*.pyx\<close> in the package directory returned, with the
  language set to \<^verbatim>\<open>c++\<close>. When it cannot be imported, the transpiler is not called.
\<close>

theorem cython_files_transpiles_once:
  "(cython_importable w \<longrightarrow>
      filter is_cythonize (fst (cython_files w)) =
        [Cythonize (glob_files w (path_join (package_dir w) ''*.pyx'')) ''c++'']) \<and>
   (\<not> cython_importable w \<longrightarrow> filter is_cythonize (fst (cython_files w)) = [])"
  by (simp add: cython_files_trace)

theorem cython_files_transpiles_once_witness:
  "cython_importable templates_world \<and>
   filter is_cythonize (fst (cython_files templates_world)) =
     [Cythonize [''/pkg/a.pyx'', ''/pkg/b.pyx''] ''c++''] \<and>
   \<not> cython_importable bare_world \<and>
   filter is_cythonize (fst (cython_files bare_world)) = []"
proof -
  have a: "cython_importable templates_world"
    by (simp add: templates_world_def bare_world_def)
  have b: "\<not> cython_importable bare_world"
    by (simp add: bare_world_def)
  have g: "glob_files templates_world (path_join (package_dir templates_world) ''*.pyx'') =
             [''/pkg/a.pyx'', ''/pkg/b.pyx'']"
    by (simp add: templates_world_def bare_world_def)
  from cython_files_transpiles_once [of templates_world] a g
  have "filter is_cythonize (fst (cython_files templates_world)) =
          [Cythonize [''/pkg/a.pyx'', ''/pkg/b.pyx''] ''c++'']"
    by simp
  moreover from cython_files_transpiles_once [of bare_world] b
  have "filter is_cythonize (fst (cython_files bare_world)) = []"
    by simp
  ultimately show ?thesis
    using a b by simp
qed

end
